theory Spec2Isabelle
  imports Main "HOL-Library.Word"
begin

section \<open>Package client: sources, runtime clients and the runtime index\<close>

text \<open>
  A shallow embedding of \<^verbatim>\<open>internal/client/client.go\<close>.

  \<^item> \<^verbatim>\<open>Source\<close> is a \<^verbatim>\<open>uint8\<close>, hence an 8-bit word; every one of the 256 values is a
    legal \<^verbatim>\<open>Source\<close>, not only the six named constants.
  \<^item> A Go \<^verbatim>\<open>string\<close> is a byte sequence, hence a \<open>string\<close> (a list of 8-bit characters).
  \<^item> A Go slice \<^verbatim>\<open>[]string\<close> is either \<^verbatim>\<open>nil\<close> or a non-nil slice with its elements:
    \<open>None\<close> is the nil slice, \<open>Some xs\<close> a non-nil slice holding \<open>xs\<close> (so \<open>Some []\<close> is
    the empty non-nil slice). A slice is taken with the elements it has at the call:
    \<^verbatim>\<open>SetInfo\<close> keeps the caller's slice without copying it, and what the caller writes
    into it afterwards is outside this model.
  \<^item> A pointer \<^verbatim>\<open>*whois.Info\<close> is \<^verbatim>\<open>nil\<close> (\<open>None\<close>) or points to a WHOIS record
    (\<open>Some w\<close>). The type \<^verbatim>\<open>whois.Info\<close> is declared in another package and is only
    stored and returned here, so it is the type parameter \<open>'w\<close>.
  \<^item> Methods with a pointer receiver \<^verbatim>\<open>r *Runtime\<close> take the record and return the
    updated record; the receiver is a record, that is, not the nil pointer.
  \<^item> A run-time panic is a value: an operation with an expression that can panic
    returns \<open>panic + 'a\<close>, with \<open>Inl\<close> for the panic.
\<close>

subsection \<open>Source\<close>

type_synonym Source = "8 word"

type_synonym byte = "8 word"

text \<open>The constants are \<^verbatim>\<open>iota + 1\<close>, in declaration order.\<close>

definition SourceWHOIS :: Source where
  "SourceWHOIS = 1"

definition SourceARP :: Source where
  "SourceARP = 2"

definition SourceRDNS :: Source where
  "SourceRDNS = 3"

definition SourceDHCP :: Source where
  "SourceDHCP = 4"

definition SourceHostsFile :: Source where
  "SourceHostsFile = 5"

definition SourcePersistent :: Source where
  "SourcePersistent = 6"

lemmas Source_defs =
  SourceWHOIS_def SourceARP_def SourceRDNS_def SourceDHCP_def SourceHostsFile_def
  SourcePersistent_def

text \<open>\<^verbatim>\<open>func (cs Source) String() (s string)\<close>: a switch with a default branch.\<close>

definition Source_String :: "Source \<Rightarrow> string" where
  "Source_String cs =
     (if cs = SourceWHOIS then ''WHOIS''
      else if cs = SourceARP then ''ARP''
      else if cs = SourceRDNS then ''rDNS''
      else if cs = SourceDHCP then ''DHCP''
      else if cs = SourceHostsFile then ''etc/hosts''
      else '''')"

text \<open>
  \<^verbatim>\<open>func (cs Source) MarshalText() (text []byte, err error)\<close> returns
  \<^verbatim>\<open>[]byte(cs.String()), nil\<close>: the bytes of the string, and the nil error (\<open>None\<close>).
\<close>

datatype error = Error string

definition bytes_of_string :: "string \<Rightarrow> byte list" where
  "bytes_of_string s = map of_char s"

definition MarshalText :: "Source \<Rightarrow> byte list \<times> error option" where
  "MarshalText cs = (bytes_of_string (Source_String cs), None)"

subsection \<open>Addresses\<close>

text \<open>
  \<^verbatim>\<open>netip.Addr\<close> of the Go standard library is a comparable value type: its zero value
  is the invalid address (\<^verbatim>\<open>IsValid()\<close> is false for it and for nothing else), and a
  valid address is an IPv4 address or an IPv6 address with a zone (the empty zone
  for none).
\<close>

datatype netip_Addr =
    AddrZero
  | Addr4 "32 word"
  | Addr6 "128 word" string

fun IsValid :: "netip_Addr \<Rightarrow> bool" where
  "IsValid AddrZero = False"
| "IsValid (Addr4 a) = True"
| "IsValid (Addr6 a z) = True"

subsection \<open>Runtime\<close>

record 'w Runtime =
  ip :: netip_Addr
  whois :: "'w option"
  arp :: "string list option"
  rdns :: "string list option"
  dhcp :: "string list option"
  hostsFile :: "string list option"

text \<open>
  \<^verbatim>\<open>func NewRuntime(ip netip.Addr) (r *Runtime)\<close> returns \<^verbatim>\<open>&Runtime{ip: ip}\<close>: every other
  field has its zero value, nil. There is no error result and no check of \<^verbatim>\<open>ip\<close>.
\<close>

definition NewRuntime :: "netip_Addr \<Rightarrow> 'w Runtime" where
  "NewRuntime a =
     \<lparr>ip = a, whois = None, arp = None, rdns = None, dhcp = None, hostsFile = None\<rparr>"

text \<open>
  \<^verbatim>\<open>len\<close> of a slice (the nil slice has length 0) and the index expression
  \<^verbatim>\<open>s[i]\<close>, which panics at run time when \<^verbatim>\<open>i\<close> is out of range.
\<close>

datatype panic = IndexOutOfRange

fun len :: "'a list option \<Rightarrow> nat" where
  "len None = 0"
| "len (Some xs) = length xs"

fun elem :: "'a list option \<Rightarrow> nat \<Rightarrow> panic + 'a" where
  "elem None i = Inl IndexOutOfRange"
| "elem (Some xs) i = (if i < length xs then Inr (xs ! i) else Inl IndexOutOfRange)"

text \<open>
  \<^verbatim>\<open>func (r *Runtime) Info() (cs Source, host string)\<close>. The named result \<^verbatim>\<open>cs\<close> starts
  at its zero value 0 and \<^verbatim>\<open>info\<close> at the empty slice; the first case of the switch
  that holds assigns them (the WHOIS case assigns \<^verbatim>\<open>cs\<close> only). Then \<^verbatim>\<open>info[0]\<close> is
  returned unless \<^verbatim>\<open>len(info) == 0\<close>.
\<close>

definition Info_switch :: "'w Runtime \<Rightarrow> Source \<times> string list option" where
  "Info_switch r =
     (if hostsFile r \<noteq> None then (SourceHostsFile, hostsFile r)
      else if dhcp r \<noteq> None then (SourceDHCP, dhcp r)
      else if rdns r \<noteq> None then (SourceRDNS, rdns r)
      else if arp r \<noteq> None then (SourceARP, arp r)
      else if whois r \<noteq> None then (SourceWHOIS, Some [])
      else (0, Some []))"

definition Info :: "'w Runtime \<Rightarrow> panic + (Source \<times> string)" where
  "Info r =
     (case Info_switch r of
        (cs, info) \<Rightarrow>
          if len info = 0 then Inr (cs, '''')
          else (case elem info 0 of Inl e \<Rightarrow> Inl e | Inr host \<Rightarrow> Inr (cs, host)))"

text \<open>
  \<^verbatim>\<open>func (r *Runtime) SetInfo(cs Source, hosts []string)\<close>. The \<^verbatim>\<open>&&\<close> is
  short-circuit: \<^verbatim>\<open>hosts[0]\<close> is read only when \<^verbatim>\<open>len(hosts) == 1\<close>. The switch has no
  default: any other \<^verbatim>\<open>cs\<close> leaves the record as it is.
\<close>

definition SetInfo_hosts :: "string list option \<Rightarrow> panic + string list option" where
  "SetInfo_hosts hosts =
     (if len hosts = 1
      then (case elem hosts 0 of
              Inl e \<Rightarrow> Inl e
            | Inr h \<Rightarrow> if h = '''' then Inr (Some []) else Inr hosts)
      else Inr hosts)"

definition SetInfo :: "'w Runtime \<Rightarrow> Source \<Rightarrow> string list option \<Rightarrow> panic + 'w Runtime" where
  "SetInfo r cs hosts =
     (case SetInfo_hosts hosts of
        Inl e \<Rightarrow> Inl e
      | Inr hosts' \<Rightarrow>
          if cs = SourceARP then Inr (r\<lparr>arp := hosts'\<rparr>)
          else if cs = SourceRDNS then Inr (r\<lparr>rdns := hosts'\<rparr>)
          else if cs = SourceDHCP then Inr (r\<lparr>dhcp := hosts'\<rparr>)
          else if cs = SourceHostsFile then Inr (r\<lparr>hostsFile := hosts'\<rparr>)
          else Inr r)"

text \<open>\<^verbatim>\<open>func (r *Runtime) WHOIS() (info *whois.Info)\<close>\<close>

definition WHOIS :: "'w Runtime \<Rightarrow> 'w option" where
  "WHOIS r = whois r"

text \<open>\<^verbatim>\<open>func (r *Runtime) SetWHOIS(info *whois.Info)\<close>: a plain assignment.\<close>

definition SetWHOIS :: "'w Runtime \<Rightarrow> 'w option \<Rightarrow> 'w Runtime" where
  "SetWHOIS r info = r\<lparr>whois := info\<rparr>"

text \<open>\<^verbatim>\<open>func (r *Runtime) Unset(cs Source)\<close>: a switch with no default.\<close>

definition Unset :: "'w Runtime \<Rightarrow> Source \<Rightarrow> 'w Runtime" where
  "Unset r cs =
     (if cs = SourceWHOIS then r\<lparr>whois := None\<rparr>
      else if cs = SourceARP then r\<lparr>arp := None\<rparr>
      else if cs = SourceRDNS then r\<lparr>rdns := None\<rparr>
      else if cs = SourceDHCP then r\<lparr>dhcp := None\<rparr>
      else if cs = SourceHostsFile then r\<lparr>hostsFile := None\<rparr>
      else r)"

text \<open>\<^verbatim>\<open>func (r *Runtime) IsEmpty() (ok bool)\<close>\<close>

definition IsEmpty :: "'w Runtime \<Rightarrow> bool" where
  "IsEmpty r \<longleftrightarrow>
     whois r = None \<and> arp r = None \<and> rdns r = None \<and> dhcp r = None \<and> hostsFile r = None"

text \<open>\<^verbatim>\<open>func (r *Runtime) Addr() (ip netip.Addr)\<close>\<close>

definition Addr :: "'w Runtime \<Rightarrow> netip_Addr" where
  "Addr r = ip r"

subsection \<open>Sequences of operations on one record\<close>

text \<open>
  The operations a caller can apply to a record it holds, and their effect on the
  record; \<^verbatim>\<open>Info\<close>, \<^verbatim>\<open>WHOIS\<close> and \<^verbatim>\<open>IsEmpty\<close> only read it. A panic ends the run.
\<close>

datatype 'w operation =
    OpSetInfo Source "string list option"
  | OpSetWHOIS "'w option"
  | OpUnset Source
  | OpInfo
  | OpWHOIS
  | OpIsEmpty

fun exec :: "'w Runtime \<Rightarrow> 'w operation \<Rightarrow> panic + 'w Runtime" where
  "exec r (OpSetInfo cs hosts) = SetInfo r cs hosts"
| "exec r (OpSetWHOIS info) = Inr (SetWHOIS r info)"
| "exec r (OpUnset cs) = Inr (Unset r cs)"
| "exec r OpInfo = (case Info r of Inl e \<Rightarrow> Inl e | Inr res \<Rightarrow> Inr r)"
| "exec r OpWHOIS = (case WHOIS r of res \<Rightarrow> Inr r)"
| "exec r OpIsEmpty = (case IsEmpty r of res \<Rightarrow> Inr r)"

fun run :: "'w Runtime \<Rightarrow> 'w operation list \<Rightarrow> panic + 'w Runtime" where
  "run r [] = Inr r"
| "run r (opn # ops) = (case exec r opn of Inl e \<Rightarrow> Inl e | Inr r' \<Rightarrow> run r' ops)"

subsection \<open>The slots of a record, in the words of the specification\<close>

text \<open>
  The slot of source \<open>cs\<close> is non-absent. Only the five discovery sources have a slot.
\<close>

definition present :: "'w Runtime \<Rightarrow> Source \<Rightarrow> bool" where
  "present r cs \<longleftrightarrow>
     cs = SourceWHOIS \<and> whois r \<noteq> None \<or>
     cs = SourceARP \<and> arp r \<noteq> None \<or>
     cs = SourceRDNS \<and> rdns r \<noteq> None \<or>
     cs = SourceDHCP \<and> dhcp r \<noteq> None \<or>
     cs = SourceHostsFile \<and> hostsFile r \<noteq> None"

text \<open>
  The specification's \<^verbatim>\<open>Construct(address)\<close>, in its words: it fails with the condition
  \<^verbatim>\<open>InvalidAddress\<close> if the address is not valid, and otherwise creates a record with
  the address and all source slots absent.
\<close>

datatype condition = InvalidAddress

definition Construct :: "netip_Addr \<Rightarrow> condition + 'w Runtime" where
  "Construct a =
     (if IsValid a
      then Inr \<lparr>ip = a, whois = None, arp = None, rdns = None, dhcp = None,
                hostsFile = None\<rparr>
      else Inl InvalidAddress)"

subsection \<open>RuntimeIndex\<close>

text \<open>
  \<^verbatim>\<open>RuntimeIndex\<close> holds the map \<^verbatim>\<open>index map[netip.Addr]*Runtime\<close>. Its values are
  pointers, and \<^verbatim>\<open>DeleteBySrc\<close> writes through them, so the state is the map together
  with the store of the \<^verbatim>\<open>Runtime\<close> objects the pointers refer to. A pointer is a
  reference into the store; the pointers kept in the map are not nil, since
  \<^verbatim>\<open>Add\<close> reads \<^verbatim>\<open>rc.Addr()\<close> before it stores \<^verbatim>\<open>rc\<close>.
\<close>

type_synonym ref = nat

record 'w RuntimeIndex =
  objs :: "ref \<Rightarrow> 'w Runtime"
  index :: "netip_Addr \<rightharpoonup> ref"

text \<open>
  \<^verbatim>\<open>func NewRuntimeIndex() (ri *RuntimeIndex)\<close>: the empty map, over the objects that
  exist.
\<close>

definition NewRuntimeIndex :: "(ref \<Rightarrow> 'w Runtime) \<Rightarrow> 'w RuntimeIndex" where
  "NewRuntimeIndex h = \<lparr>objs = h, index = Map.empty\<rparr>"

text \<open>
  \<^verbatim>\<open>func (ri *RuntimeIndex) Client(ip netip.Addr) (rc *Runtime, ok bool)\<close>: the two-value
  map read; \<^verbatim>\<open>rc\<close> is nil (\<open>None\<close>) when there is no entry.
\<close>

definition Client :: "'w RuntimeIndex \<Rightarrow> netip_Addr \<Rightarrow> ref option \<times> bool" where
  "Client ri a = (index ri a, index ri a \<noteq> None)"

text \<open>\<^verbatim>\<open>func (ri *RuntimeIndex) Add(rc *Runtime)\<close>\<close>

definition Add :: "'w RuntimeIndex \<Rightarrow> ref \<Rightarrow> 'w RuntimeIndex" where
  "Add ri rc = (let a = Addr (objs ri rc) in ri\<lparr>index := (index ri)(a \<mapsto> rc)\<rparr>)"

text \<open>
  \<^verbatim>\<open>func (ri *RuntimeIndex) Size() (n int)\<close>: the number of entries of the map (a Go
  map is finite).
\<close>

definition Size :: "'w RuntimeIndex \<Rightarrow> nat" where
  "Size ri = card (dom (index ri))"

text \<open>\<^verbatim>\<open>func (ri *RuntimeIndex) Delete(ip netip.Addr)\<close>\<close>

definition Delete :: "'w RuntimeIndex \<Rightarrow> netip_Addr \<Rightarrow> 'w RuntimeIndex" where
  "Delete ri a = ri\<lparr>index := (index ri)(a := None)\<rparr>"

text \<open>
  \<^verbatim>\<open>func (ri *RuntimeIndex) DeleteBySrc(src Source) (n int)\<close> ranges over the map and
  deletes the entry it is at. Go leaves the order of the iteration open, so the
  order is the list \<open>order\<close> of the keys; an entry deleted before it is reached is not
  produced, which is the \<open>None\<close> case. \<^verbatim>\<open>n\<close> counts entries of a map and is far from the
  bound of \<^verbatim>\<open>int\<close>, so it is a natural number.
\<close>

fun DeleteBySrc_loop ::
  "Source \<Rightarrow> netip_Addr list \<Rightarrow> 'w RuntimeIndex \<Rightarrow> nat \<Rightarrow> 'w RuntimeIndex \<times> nat" where
  "DeleteBySrc_loop src [] ri n = (ri, n)"
| "DeleteBySrc_loop src (a # as) ri n =
     (case index ri a of
        None \<Rightarrow> DeleteBySrc_loop src as ri n
      | Some rc \<Rightarrow>
          let ri' = ri\<lparr>objs := (objs ri)(rc := Unset (objs ri rc) src)\<rparr>
          in if IsEmpty (objs ri' rc)
             then DeleteBySrc_loop src as (ri'\<lparr>index := (index ri')(a := None)\<rparr>) (n + 1)
             else DeleteBySrc_loop src as ri' n)"

definition DeleteBySrc ::
  "'w RuntimeIndex \<Rightarrow> Source \<Rightarrow> netip_Addr list \<Rightarrow> 'w RuntimeIndex \<times> nat" where
  "DeleteBySrc ri src order = DeleteBySrc_loop src order ri 0"

subsection \<open>Example states\<close>

text \<open>
  The addresses 192.0.2.10 and 192.0.2.11, and the records of the scenarios: one with
  ARP data only, one with ARP and DHCP data, one with WHOIS data only. Here a WHOIS
  record is a string.
\<close>

definition addr_10 :: netip_Addr where
  "addr_10 = Addr4 0xC000020A"

definition addr_11 :: netip_Addr where
  "addr_11 = Addr4 0xC000020B"

definition rc_arp :: "string Runtime" where
  "rc_arp =
     \<lparr>ip = addr_10, whois = None, arp = Some [''other''], rdns = None, dhcp = None,
      hostsFile = None\<rparr>"

definition rc_arp_dhcp :: "string Runtime" where
  "rc_arp_dhcp =
     \<lparr>ip = addr_11, whois = None, arp = Some [''other''], rdns = None,
      dhcp = Some [''host.example''], hostsFile = None\<rparr>"

definition rc_whois :: "string Runtime" where
  "rc_whois =
     \<lparr>ip = addr_10, whois = Some ''orgname'', arp = None, rdns = None, dhcp = None,
      hostsFile = None\<rparr>"

text \<open>
  An index over three objects: \<open>rc_arp\<close> at reference 1 and \<open>rc_arp_dhcp\<close> at
  reference 2 are stored, \<open>rc_whois\<close> at reference 3 is not.
\<close>

definition ri_two :: "string RuntimeIndex" where
  "ri_two =
     \<lparr>objs = (\<lambda>p. if p = 1 then rc_arp else if p = 2 then rc_arp_dhcp else rc_whois),
      index = [addr_10 \<mapsto> 1, addr_11 \<mapsto> 2]\<rparr>"

lemmas example_defs =
  addr_10_def addr_11_def rc_arp_def rc_arp_dhcp_def rc_whois_def ri_two_def

section \<open>Properties\<close>

subsection \<open>Auxiliary facts\<close>

lemma Info_Some:
  "Info_switch r = (cs, Some xs) \<Longrightarrow> Info r = Inr (cs, if xs = [] then '''' else hd xs)"
  by (cases xs) (simp_all add: Info_def)

lemma Info_total: "\<exists>res. Info r = Inr res"
proof -
  have "\<exists>cs xs. Info_switch r = (cs, Some xs)"
    by (auto simp: Info_switch_def)
  then show ?thesis
    by (auto simp: Info_Some)
qed

lemma SetInfo_total: "\<exists>r'. SetInfo r cs hosts = Inr r'"
  by (cases hosts) (auto simp: SetInfo_def SetInfo_hosts_def)

lemma present_simps:
  "present r SourceWHOIS \<longleftrightarrow> whois r \<noteq> None"
  "present r SourceARP \<longleftrightarrow> arp r \<noteq> None"
  "present r SourceRDNS \<longleftrightarrow> rdns r \<noteq> None"
  "present r SourceDHCP \<longleftrightarrow> dhcp r \<noteq> None"
  "present r SourceHostsFile \<longleftrightarrow> hostsFile r \<noteq> None"
  by (simp_all add: present_def Source_defs)

lemma IsEmpty_present: "IsEmpty r \<longleftrightarrow> (\<forall>cs. \<not> present r cs)"
  by (auto simp: IsEmpty_def present_def)

lemma present_Unset: "present (Unset r cs) cs' \<longleftrightarrow> present r cs' \<and> cs' \<noteq> cs"
  by (auto simp: present_def Unset_def Source_defs)

lemma Unset_idem: "Unset (Unset r cs) cs = Unset r cs"
  by (simp add: Unset_def)

lemma exec_Addr: "\<exists>r'. exec r opn = Inr r' \<and> Addr r' = Addr r"
proof (cases opn)
  case (OpSetInfo cs hosts)
  then show ?thesis
    by (cases hosts) (auto simp: SetInfo_def SetInfo_hosts_def Addr_def)
next
  case OpInfo
  then show ?thesis
    using Info_total [of r] by auto
qed (simp_all add: SetWHOIS_def Unset_def Addr_def)

lemma run_Addr: "\<exists>r'. run r ops = Inr r' \<and> Addr r' = Addr r"
proof (induction ops arbitrary: r)
  case Nil
  show ?case by simp
next
  case (Cons opn ops)
  obtain r1 where r1: "exec r opn = Inr r1" "Addr r1 = Addr r"
    using exec_Addr by blast
  obtain r2 where "run r1 ops = Inr r2" "Addr r2 = Addr r1"
    using Cons.IH by blast
  with r1 show ?case by simp
qed

subsection \<open>The loop of DeleteBySrc\<close>

lemma loop_objs:
  "distinct as \<Longrightarrow>
   objs (fst (DeleteBySrc_loop src as ri n)) p =
     (if \<exists>a\<in>set as. index ri a = Some p then Unset (objs ri p) src else objs ri p)"
proof (induction as arbitrary: ri n)
  case Nil
  show ?case by simp
next
  case (Cons a as)
  then have d: "distinct as" and a: "a \<notin> set as"
    by simp_all
  show ?case
  proof (cases "index ri a")
    case None
    with a show ?thesis
      by (auto simp: Cons.IH [OF d])
  next
    case (Some rc)
    with a show ?thesis
      by (auto simp: Cons.IH [OF d] Let_def Unset_idem)
  qed
qed

lemma loop_index:
  "distinct as \<Longrightarrow>
   index (fst (DeleteBySrc_loop src as ri n)) b =
     (if b \<in> set as
      then (case index ri b of
              None \<Rightarrow> None
            | Some rc \<Rightarrow> if IsEmpty (Unset (objs ri rc) src) then None else Some rc)
      else index ri b)"
proof (induction as arbitrary: ri n b)
  case Nil
  show ?case by simp
next
  case (Cons a as)
  then have d: "distinct as" and a: "a \<notin> set as"
    by simp_all
  show ?case
  proof (cases "index ri a")
    case None
    with a show ?thesis
      by (auto simp: Cons.IH [OF d])
  next
    case (Some rc)
    with a show ?thesis
      by (auto simp: Cons.IH [OF d] Let_def Unset_idem split: option.splits)
  qed
qed

lemma loop_count:
  "distinct as \<Longrightarrow>
   snd (DeleteBySrc_loop src as ri n) =
     n + length (filter (\<lambda>a. \<exists>rc. index ri a = Some rc \<and> IsEmpty (Unset (objs ri rc) src)) as)"
proof (induction as arbitrary: ri n)
  case Nil
  show ?case by simp
next
  case (Cons a as)
  then have d: "distinct as" and a: "a \<notin> set as"
    by simp_all
  have same: "filter (\<lambda>b. \<exists>rc. index ri' b = Some rc \<and> IsEmpty (Unset (objs ri' rc) src)) as =
      filter (\<lambda>b. \<exists>rc. index ri b = Some rc \<and> IsEmpty (Unset (objs ri rc) src)) as"
    if "\<And>b. b \<in> set as \<Longrightarrow> index ri' b = index ri b"
      and "\<And>p. Unset (objs ri' p) src = Unset (objs ri p) src" for ri' :: "'a RuntimeIndex"
    using that by (intro filter_cong) auto
  show ?case
  proof (cases "index ri a")
    case None
    then show ?thesis
      by (simp add: Cons.IH [OF d])
  next
    case (Some rc)
    let ?ri1 = "ri\<lparr>objs := (objs ri)(rc := Unset (objs ri rc) src)\<rparr>"
    let ?ri2 = "?ri1\<lparr>index := (index ?ri1)(a := None)\<rparr>"
    have s1: "filter (\<lambda>b. \<exists>rc. index ?ri1 b = Some rc \<and> IsEmpty (Unset (objs ?ri1 rc) src)) as =
      filter (\<lambda>b. \<exists>rc. index ri b = Some rc \<and> IsEmpty (Unset (objs ri rc) src)) as"
      by (rule same) (simp_all add: Unset_idem)
    have s2: "filter (\<lambda>b. \<exists>rc. index ?ri2 b = Some rc \<and> IsEmpty (Unset (objs ?ri2 rc) src)) as =
      filter (\<lambda>b. \<exists>rc. index ri b = Some rc \<and> IsEmpty (Unset (objs ri rc) src)) as"
      using a by (intro same) (auto simp: Unset_idem)
    from Some show ?thesis
      using s1 s2 by (simp add: Cons.IH [OF d] Let_def)
  qed
qed

subsection \<open>Resolution by priority\<close>

text \<open>
  C1. For every record, \<open>Info\<close> goes through the slots in the order hosts file, DHCP,
  reverse DNS, ARP, WHOIS, and returns the first source whose slot is not absent
  together with the first name of that slot; the name is the empty string when the
  slot is present but empty and when the source is WHOIS; when all five slots are
  absent it returns the zero source value and the empty string. It never panics.
\<close>

theorem Info_priority:
  "(hostsFile r = Some hs \<longrightarrow>
      Info r = Inr (SourceHostsFile, if hs = [] then '''' else hd hs)) \<and>
   (hostsFile r = None \<and> dhcp r = Some ds \<longrightarrow>
      Info r = Inr (SourceDHCP, if ds = [] then '''' else hd ds)) \<and>
   (hostsFile r = None \<and> dhcp r = None \<and> rdns r = Some rs \<longrightarrow>
      Info r = Inr (SourceRDNS, if rs = [] then '''' else hd rs)) \<and>
   (hostsFile r = None \<and> dhcp r = None \<and> rdns r = None \<and> arp r = Some as \<longrightarrow>
      Info r = Inr (SourceARP, if as = [] then '''' else hd as)) \<and>
   (hostsFile r = None \<and> dhcp r = None \<and> rdns r = None \<and> arp r = None \<and>
    whois r = Some w \<longrightarrow>
      Info r = Inr (SourceWHOIS, '''')) \<and>
   (hostsFile r = None \<and> dhcp r = None \<and> rdns r = None \<and> arp r = None \<and>
    whois r = None \<longrightarrow>
      Info r = Inr (0, ''''))"
  by (auto simp: Info_switch_def intro!: Info_Some [THEN trans])

theorem Info_priority_witness:
  "hostsFile (rc_arp_dhcp\<lparr>hostsFile := Some []\<rparr>) = Some [] \<and>
   Info (rc_arp_dhcp\<lparr>hostsFile := Some []\<rparr>) = Inr (SourceHostsFile, '''') \<and>
   hostsFile rc_arp_dhcp = None \<and> dhcp rc_arp_dhcp = Some [''host.example''] \<and>
   Info rc_arp_dhcp = Inr (SourceDHCP, ''host.example'') \<and>
   rdns (rc_arp\<lparr>rdns := Some [''a.example'', ''b.example'']\<rparr>) =
     Some [''a.example'', ''b.example''] \<and>
   Info (rc_arp\<lparr>rdns := Some [''a.example'', ''b.example'']\<rparr>) =
     Inr (SourceRDNS, ''a.example'') \<and>
   arp rc_arp = Some [''other''] \<and>
   Info rc_arp = Inr (SourceARP, ''other'') \<and>
   whois rc_whois = Some ''orgname'' \<and>
   Info rc_whois = Inr (SourceWHOIS, '''') \<and>
   whois (NewRuntime addr_10 :: string Runtime) = None \<and>
   Info (NewRuntime addr_10 :: string Runtime) = Inr (0, '''')"
  using
    Info_priority [of "rc_arp_dhcp\<lparr>hostsFile := Some []\<rparr>" "[]"]
    Info_priority [of rc_arp_dhcp _ "[''host.example'']"]
    Info_priority [of "rc_arp\<lparr>rdns := Some [''a.example'', ''b.example'']\<rparr>" _ _
      "[''a.example'', ''b.example'']"]
    Info_priority [of rc_arp _ _ _ "[''other'']"]
    Info_priority [of rc_whois _ _ _ _ "''orgname''"]
    Info_priority [of "NewRuntime addr_10 :: string Runtime"]
  by (simp add: example_defs NewRuntime_def)

subsection \<open>The registry\<close>

text \<open>
  C2. For every state of the index and every source \<open>src\<close>, \<open>DeleteBySrc\<close>, in whatever
  order it visits the entries, clears the slot of \<open>src\<close> in every stored record
  (and touches no other object), removes exactly the entries whose record is empty
  after the clearing, and returns the number of entries removed. In particular a
  stored record with no non-absent slot other than that of \<open>src\<close> is no longer found
  by \<open>Client\<close>, and a stored record with a non-absent slot of another source is
  still found, with the slot of \<open>src\<close> cleared and the other slot kept.
\<close>

theorem DeleteBySrc_clears_and_removes:
  assumes "distinct order" and "set order = dom (index ri)"
    and "DeleteBySrc ri src order = (ri', n)"
  shows
    "(\<forall>a rc. index ri a = Some rc \<longrightarrow> objs ri' rc = Unset (objs ri rc) src) \<and>
     (\<forall>p. p \<notin> ran (index ri) \<longrightarrow> objs ri' p = objs ri p) \<and>
     (\<forall>a. index ri' a =
        (case index ri a of
           None \<Rightarrow> None
         | Some rc \<Rightarrow> if IsEmpty (objs ri' rc) then None else Some rc)) \<and>
     n = card {a. index ri a \<noteq> None \<and> index ri' a = None} \<and>
     (\<forall>a rc. index ri a = Some rc \<and> (\<forall>cs. present (objs ri rc) cs \<longrightarrow> cs = src) \<longrightarrow>
        Client ri' a = (None, False)) \<and>
     (\<forall>a rc cs. index ri a = Some rc \<and> present (objs ri rc) cs \<and> cs \<noteq> src \<longrightarrow>
        Client ri' a = (Some rc, True) \<and> objs ri' rc = Unset (objs ri rc) src \<and>
        \<not> present (objs ri' rc) src \<and> present (objs ri' rc) cs)"
proof -
  let ?gone = "\<lambda>a. \<exists>rc. index ri a = Some rc \<and> IsEmpty (Unset (objs ri rc) src)"
  have ri': "ri' = fst (DeleteBySrc_loop src order ri 0)"
    and n: "n = snd (DeleteBySrc_loop src order ri 0)"
    using assms(3) by (simp_all add: DeleteBySrc_def)
  have mem: "b \<in> set order \<longleftrightarrow> index ri b \<noteq> None" for b
    using assms(2) by auto
  have O: "objs ri' p = (if \<exists>a. index ri a = Some p then Unset (objs ri p) src else objs ri p)"
    for p
    unfolding ri' loop_objs [OF assms(1)] using mem by auto
  have O1: "objs ri' rc = Unset (objs ri rc) src" if "index ri a = Some rc" for a rc
    using that O [of rc] by auto
  have O2: "objs ri' p = objs ri p" if "p \<notin> ran (index ri)" for p
    using that O [of p] by (auto simp: ran_def)
  have I: "index ri' b =
      (case index ri b of
         None \<Rightarrow> None
       | Some rc \<Rightarrow> if IsEmpty (Unset (objs ri rc) src) then None else Some rc)" for b
    unfolding ri' loop_index [OF assms(1)] using mem [of b] by (auto split: option.splits)
  have I': "index ri' b =
      (case index ri b of
         None \<Rightarrow> None
       | Some rc \<Rightarrow> if IsEmpty (objs ri' rc) then None else Some rc)" for b
    using I [of b] O1 [of b] by (auto split: option.splits)
  have "{a. index ri a \<noteq> None \<and> index ri' a = None} = {a. ?gone a} \<inter> set order"
    using mem I by (auto split: option.splits if_splits)
  then have N: "n = card {a. index ri a \<noteq> None \<and> index ri' a = None}"
    unfolding n loop_count [OF assms(1)] distinct_length_filter [OF assms(1)] by simp
  have only: "Client ri' a = (None, False)"
    if "index ri a = Some rc" and "\<forall>cs. present (objs ri rc) cs \<longrightarrow> cs = src" for a rc
  proof -
    have "IsEmpty (Unset (objs ri rc) src)"
      using that(2) by (auto simp: IsEmpty_present present_Unset)
    with that(1) show ?thesis
      by (simp add: Client_def I)
  qed
  have other: "Client ri' a = (Some rc, True) \<and> objs ri' rc = Unset (objs ri rc) src \<and>
      \<not> present (objs ri' rc) src \<and> present (objs ri' rc) cs"
    if "index ri a = Some rc" and "present (objs ri rc) cs" and "cs \<noteq> src" for a rc cs
  proof -
    have "present (Unset (objs ri rc) src) cs"
      using that(2,3) by (simp add: present_Unset)
    then have "\<not> IsEmpty (Unset (objs ri rc) src)"
      by (auto simp: IsEmpty_present)
    with that show ?thesis
      by (simp add: Client_def I O1 [OF that(1)] present_Unset)
  qed
  show ?thesis
    using O1 O2 I' N only other by blast
qed

theorem DeleteBySrc_clears_and_removes_witness:
  "distinct [addr_10, addr_11] \<and> set [addr_10, addr_11] = dom (index ri_two) \<and>
   snd (DeleteBySrc ri_two SourceARP [addr_10, addr_11]) = 1 \<and>
   snd (DeleteBySrc ri_two SourceARP [addr_11, addr_10]) = 1 \<and>
   Client (fst (DeleteBySrc ri_two SourceARP [addr_10, addr_11])) addr_10 = (None, False) \<and>
   Client (fst (DeleteBySrc ri_two SourceARP [addr_10, addr_11])) addr_11 = (Some 2, True) \<and>
   objs (fst (DeleteBySrc ri_two SourceARP [addr_10, addr_11])) 1 = rc_arp\<lparr>arp := None\<rparr> \<and>
   objs (fst (DeleteBySrc ri_two SourceARP [addr_10, addr_11])) 2 =
     rc_arp_dhcp\<lparr>arp := None\<rparr> \<and>
   objs (fst (DeleteBySrc ri_two SourceARP [addr_10, addr_11])) 3 = rc_whois"
proof -
  let ?res = "DeleteBySrc ri_two SourceARP [addr_10, addr_11]"
  have d: "distinct [addr_10, addr_11]"
    by (simp add: example_defs)
  have s: "set [addr_10, addr_11] = dom (index ri_two)"
    by (auto simp: example_defs)
  have e: "?res = (fst ?res, snd ?res)"
    by simp
  note t = DeleteBySrc_clears_and_removes [OF d s e]
  have i1: "index ri_two addr_10 = Some 1" and i2: "index ri_two addr_11 = Some 2"
    by (simp_all add: example_defs)
  have o1: "objs ri_two 1 = rc_arp" and o2: "objs ri_two 2 = rc_arp_dhcp"
    and o3: "objs ri_two 3 = rc_whois"
    by (simp_all add: ri_two_def)
  have p1: "\<forall>cs. present rc_arp cs \<longrightarrow> cs = SourceARP"
    by (simp add: present_def rc_arp_def)
  have p2: "present rc_arp_dhcp SourceDHCP" and ne: "SourceDHCP \<noteq> SourceARP"
    by (simp_all add: present_def rc_arp_dhcp_def Source_defs)
  have r3: "3 \<notin> ran (index ri_two)"
    by (auto simp: ri_two_def ran_def addr_10_def addr_11_def)
  from t have cleared: "objs (fst ?res) rc = Unset (objs ri_two rc) SourceARP"
    if "index ri_two a = Some rc" for a rc
    using that by blast
  from t have frame: "objs (fst ?res) p = objs ri_two p" if "p \<notin> ran (index ri_two)" for p
    using that by blast
  from t have gone: "Client (fst ?res) a = (None, False)"
    if "index ri_two a = Some rc" and "\<forall>cs. present (objs ri_two rc) cs \<longrightarrow> cs = SourceARP"
    for a rc
    using that by blast
  from t have kept: "Client (fst ?res) a = (Some rc, True)"
    if "index ri_two a = Some rc" and "present (objs ri_two rc) cs" and "cs \<noteq> SourceARP"
    for a rc cs
    using that by blast
  have c1: "Client (fst ?res) addr_10 = (None, False)"
    by (rule gone [OF i1, unfolded o1, OF p1])
  have c2: "Client (fst ?res) addr_11 = (Some 2, True)"
    by (rule kept [OF i2, unfolded o2, OF p2 ne])
  have u1: "objs (fst ?res) 1 = Unset rc_arp SourceARP"
    by (rule cleared [OF i1, unfolded o1])
  have u2: "objs (fst ?res) 2 = Unset rc_arp_dhcp SourceARP"
    by (rule cleared [OF i2, unfolded o2])
  have u3: "objs (fst ?res) 3 = rc_whois"
    by (rule frame [OF r3, unfolded o3])
  have n: "snd ?res = 1" "snd (DeleteBySrc ri_two SourceARP [addr_11, addr_10]) = 1"
    by (simp_all add: DeleteBySrc_def example_defs Unset_def IsEmpty_def Source_defs)
  show ?thesis
    using d s n c1 c2 u1 u2 u3 by (simp add: Unset_def Source_defs)
qed

text \<open>
  C4. For every state of the index and any two records \<open>r1\<close>, \<open>r2\<close> with the same
  address, \<open>Add\<close> of \<open>r1\<close> followed by \<open>Add\<close> of \<open>r2\<close> leaves one entry at that address,
  the record \<open>r2\<close>, which \<open>Client\<close> returns with \<open>ok\<close> true; \<open>Add\<close> stores a record under
  its own address and replaces the entry that was there.
\<close>

theorem Add_overwrites:
  assumes "Addr (objs ri r1) = Addr (objs ri r2)"
  shows
    "Client (Add (Add ri r1) r2) (Addr (objs ri r2)) = (Some r2, True) \<and>
     index (Add (Add ri r1) r2) = (index ri)(Addr (objs ri r2) \<mapsto> r2) \<and>
     objs (Add (Add ri r1) r2) = objs ri \<and>
     Size (Add (Add ri r1) r2) = Size (Add ri r1) \<and>
     index (Add ri r2) = (index ri)(Addr (objs ri r2) \<mapsto> r2)"
  using assms by (simp add: Add_def Client_def Size_def Let_def)

theorem Add_overwrites_witness:
  "Addr (objs ri_two 1) = Addr (objs ri_two 3) \<and>
   Addr (objs ri_two 3) = addr_10 \<and>
   Client (Add (Add ri_two 1) 3) addr_10 = (Some 3, True) \<and>
   Client (Add (Add ri_two 1) 3) addr_11 = (Some 2, True) \<and>
   Size (Add (Add ri_two 1) 3) = 2"
proof -
  have a: "Addr (objs ri_two 1) = Addr (objs ri_two 3)"
    by (simp add: example_defs Addr_def)
  have b: "Addr (objs ri_two 3) = addr_10"
    by (simp add: example_defs Addr_def)
  have ne: "addr_10 \<noteq> addr_11"
    by (simp add: example_defs)
  have sz: "Size (Add ri_two 1) = 2"
    using ne by (simp add: Size_def Add_def Addr_def ri_two_def rc_arp_def)
  from Add_overwrites [OF a] b sz ne show ?thesis
    using a by (simp add: Client_def ri_two_def)
qed

subsection \<open>Setting and clearing the slots of a record\<close>

text \<open>
  C3. For every record and each of the sources ARP, reverse DNS, DHCP and hosts
  file, \<open>SetInfo\<close> with the one-element sequence holding the empty string sets the
  slot to present-but-empty, not to the sequence holding the empty string, and the
  resulting record is the one \<open>SetInfo\<close> with the empty sequence gives.
\<close>

theorem SetInfo_empty_string:
  "SetInfo r SourceARP (Some ['''']) = Inr (r\<lparr>arp := Some []\<rparr>) \<and>
   SetInfo r SourceRDNS (Some ['''']) = Inr (r\<lparr>rdns := Some []\<rparr>) \<and>
   SetInfo r SourceDHCP (Some ['''']) = Inr (r\<lparr>dhcp := Some []\<rparr>) \<and>
   SetInfo r SourceHostsFile (Some ['''']) = Inr (r\<lparr>hostsFile := Some []\<rparr>) \<and>
   SetInfo r cs (Some ['''']) = SetInfo r cs (Some [])"
  by (simp add: SetInfo_def SetInfo_hosts_def Source_defs)

theorem SetInfo_empty_string_witness:
  "SetInfo rc_arp_dhcp SourceHostsFile (Some ['''']) =
     Inr (rc_arp_dhcp\<lparr>hostsFile := Some []\<rparr>) \<and>
   SetInfo rc_arp_dhcp SourceHostsFile (Some ['''']) =
     SetInfo rc_arp_dhcp SourceHostsFile (Some []) \<and>
   SetInfo rc_arp_dhcp SourceARP (Some ['''']) = Inr (rc_arp_dhcp\<lparr>arp := Some []\<rparr>)"
  using SetInfo_empty_string [of rc_arp_dhcp SourceHostsFile]
  by (simp add: SetInfo_def SetInfo_hosts_def Source_defs)

text \<open>
  C5. For every record and each of the five sources with a slot, setting the slot
  (\<open>SetInfo\<close> for ARP, reverse DNS, DHCP and hosts file, \<open>SetWHOIS\<close> for WHOIS) and
  then \<open>Unset\<close> of the same source leaves the slot absent; and if no other slot of
  the record was non-absent, \<open>IsEmpty\<close> holds afterwards.
\<close>

theorem Unset_after_set:
  "(cs \<in> {SourceARP, SourceRDNS, SourceDHCP, SourceHostsFile} \<longrightarrow>
      (\<exists>r'. SetInfo r cs hosts = Inr r' \<and>
         \<not> present (Unset r' cs) cs \<and>
         ((\<forall>cs'. present r' cs' \<longrightarrow> cs' = cs) \<longrightarrow> IsEmpty (Unset r' cs)))) \<and>
   \<not> present (Unset (SetWHOIS r info) SourceWHOIS) SourceWHOIS \<and>
   ((\<forall>cs'. present (SetWHOIS r info) cs' \<longrightarrow> cs' = SourceWHOIS) \<longrightarrow>
      IsEmpty (Unset (SetWHOIS r info) SourceWHOIS))"
  using SetInfo_total [of r cs hosts]
  by (auto simp: IsEmpty_present present_Unset)

theorem Unset_after_set_witness:
  "SourceDHCP \<in> {SourceARP, SourceRDNS, SourceDHCP, SourceHostsFile} \<and>
   SetInfo (NewRuntime addr_10) SourceDHCP (Some [''host.example'']) =
     Inr ((NewRuntime addr_10 :: string Runtime)\<lparr>dhcp := Some [''host.example'']\<rparr>) \<and>
   (\<forall>cs'. present ((NewRuntime addr_10 :: string Runtime)\<lparr>dhcp := Some [''host.example'']\<rparr>) cs'
      = (cs' = SourceDHCP)) \<and>
   dhcp (Unset ((NewRuntime addr_10 :: string Runtime)\<lparr>dhcp := Some [''host.example'']\<rparr>)
      SourceDHCP) = None \<and>
   IsEmpty (Unset ((NewRuntime addr_10 :: string Runtime)\<lparr>dhcp := Some [''host.example'']\<rparr>)
      SourceDHCP) \<and>
   (\<forall>cs'. present (SetWHOIS (NewRuntime addr_10) (Some ''orgname'')) cs' = (cs' = SourceWHOIS)) \<and>
   whois (Unset (SetWHOIS (NewRuntime addr_10) (Some ''orgname'')) SourceWHOIS) = None \<and>
   IsEmpty (Unset (SetWHOIS (NewRuntime addr_10) (Some ''orgname'')) SourceWHOIS)"
proof -
  let ?r = "NewRuntime addr_10 :: string Runtime"
  let ?r' = "?r\<lparr>dhcp := Some [''host.example'']\<rparr>"
  have m: "SourceDHCP \<in> {SourceARP, SourceRDNS, SourceDHCP, SourceHostsFile}"
    by simp
  have s: "SetInfo ?r SourceDHCP (Some [''host.example'']) = Inr ?r'"
    by (simp add: SetInfo_def SetInfo_hosts_def Source_defs)
  have p: "\<forall>cs'. present ?r' cs' = (cs' = SourceDHCP)"
    by (simp add: present_def NewRuntime_def)
  have q: "\<forall>cs'. present (SetWHOIS ?r (Some ''orgname'')) cs' = (cs' = SourceWHOIS)"
    by (simp add: present_def NewRuntime_def SetWHOIS_def)
  from Unset_after_set [of SourceDHCP ?r "Some [''host.example'']" "Some ''orgname''"] m s p q
  have "\<not> present (Unset ?r' SourceDHCP) SourceDHCP \<and> IsEmpty (Unset ?r' SourceDHCP) \<and>
      \<not> present (Unset (SetWHOIS ?r (Some ''orgname'')) SourceWHOIS) SourceWHOIS \<and>
      IsEmpty (Unset (SetWHOIS ?r (Some ''orgname'')) SourceWHOIS)"
    by simp
  with m s p q show ?thesis
    by (simp add: present_simps)
qed

text \<open>
  C6. For every record, \<open>SetInfo\<close> with a source other than ARP, reverse DNS, DHCP
  and hosts file (WHOIS and the persistent source included), and \<open>Unset\<close> with a
  source other than the five sources with a slot, return the record with every
  field unchanged, and do not panic.
\<close>

theorem unsupported_source_noop:
  "(cs \<notin> {SourceARP, SourceRDNS, SourceDHCP, SourceHostsFile} \<longrightarrow>
      SetInfo r cs hosts = Inr r) \<and>
   (cs \<notin> {SourceWHOIS, SourceARP, SourceRDNS, SourceDHCP, SourceHostsFile} \<longrightarrow>
      Unset r cs = r)"
  by (cases hosts) (auto simp: SetInfo_def SetInfo_hosts_def Unset_def)

theorem unsupported_source_noop_witness:
  "SourcePersistent \<notin> {SourceWHOIS, SourceARP, SourceRDNS, SourceDHCP, SourceHostsFile} \<and>
   SetInfo rc_arp_dhcp SourcePersistent (Some [''pinned'']) = Inr rc_arp_dhcp \<and>
   Unset rc_arp_dhcp SourcePersistent = rc_arp_dhcp \<and>
   SourceWHOIS \<notin> {SourceARP, SourceRDNS, SourceDHCP, SourceHostsFile} \<and>
   SetInfo rc_whois SourceWHOIS (Some ['''']) = Inr rc_whois \<and>
   (0 :: Source) \<notin> {SourceWHOIS, SourceARP, SourceRDNS, SourceDHCP, SourceHostsFile} \<and>
   SetInfo rc_arp 0 None = Inr rc_arp \<and>
   Unset rc_arp 0 = rc_arp \<and>
   (255 :: Source) \<notin> {SourceWHOIS, SourceARP, SourceRDNS, SourceDHCP, SourceHostsFile} \<and>
   Unset rc_whois 255 = rc_whois"
  using
    unsupported_source_noop [of SourcePersistent rc_arp_dhcp "Some [''pinned'']"]
    unsupported_source_noop [of SourceWHOIS rc_whois "Some ['''']"]
    unsupported_source_noop [of 0 rc_arp None]
    unsupported_source_noop [of 255 rc_whois None]
  by (simp add: Source_defs)

subsection \<open>Construction and the address\<close>

text \<open>
  C7. \<open>NewRuntime\<close> does not check the address and cannot fail: for every address,
  the invalid zero address included, it creates a record with that address and all
  five slots absent, which for a valid address is the record the specification's
  \<open>Construct\<close> gives; and no operation on a record panics.
\<close>

theorem NewRuntime_total:
  "(NewRuntime a :: 'w Runtime) =
     \<lparr>ip = a, whois = None, arp = None, rdns = None, dhcp = None, hostsFile = None\<rparr> \<and>
   Addr (NewRuntime a :: 'w Runtime) = a \<and>
   IsEmpty (NewRuntime a :: 'w Runtime) \<and>
   (IsValid a \<longrightarrow> Construct a = Inr (NewRuntime a :: 'w Runtime)) \<and>
   (\<exists>res. Info (r :: 'w Runtime) = Inr res) \<and>
   (\<exists>r'. SetInfo r cs hosts = Inr r')"
  using Info_total [of r] SetInfo_total [of r cs hosts]
  by (simp add: NewRuntime_def Addr_def IsEmpty_def Construct_def)

theorem NewRuntime_total_witness:
  "IsValid addr_10 \<and>
   (Construct addr_10 :: condition + string Runtime) = Inr (NewRuntime addr_10) \<and>
   (NewRuntime addr_10 :: string Runtime) =
     \<lparr>ip = addr_10, whois = None, arp = None, rdns = None, dhcp = None, hostsFile = None\<rparr> \<and>
   IsEmpty (NewRuntime AddrZero :: string Runtime) \<and>
   Addr (NewRuntime AddrZero :: string Runtime) = AddrZero"
  using NewRuntime_total [of addr_10 rc_arp SourceARP None]
    NewRuntime_total [of AddrZero rc_arp SourceARP None]
  by (simp add: addr_10_def IsEmpty_def Addr_def)

text \<open>
  The specification's \<open>Construct\<close> and \<open>NewRuntime\<close> differ at the zero address: it is
  not valid, \<open>Construct\<close> fails on it with \<open>InvalidAddress\<close>, and \<open>NewRuntime\<close> returns a
  record.
\<close>

theorem NewRuntime_invalid_counterexample:
  "\<not> IsValid AddrZero \<and>
   (Construct AddrZero :: condition + string Runtime) = Inl InvalidAddress \<and>
   (Construct AddrZero :: condition + string Runtime) \<noteq> Inr (NewRuntime AddrZero) \<and>
   (NewRuntime AddrZero :: string Runtime) =
     \<lparr>ip = AddrZero, whois = None, arp = None, rdns = None, dhcp = None, hostsFile = None\<rparr>"
  by (simp add: Construct_def NewRuntime_def)

text \<open>
  C9. For every record and every sequence of the operations \<open>SetInfo\<close>, \<open>SetWHOIS\<close>,
  \<open>Unset\<close>, \<open>Info\<close>, \<open>WHOIS\<close> and \<open>IsEmpty\<close>, the sequence runs to its end and \<open>Addr\<close> of
  the record afterwards is \<open>Addr\<close> of the record before; for a record made by
  \<open>NewRuntime\<close> it is the address given to \<open>NewRuntime\<close>.
\<close>

theorem Addr_never_reassigned:
  "(\<exists>r'. run r ops = Inr r' \<and> Addr r' = Addr r) \<and>
   (\<exists>r'. run (NewRuntime a) ops = Inr (r' :: 'w Runtime) \<and> Addr r' = a)"
  using run_Addr [of r ops] run_Addr [of "NewRuntime a" ops]
  by (simp add: NewRuntime_def Addr_def)

theorem Addr_never_reassigned_witness:
  "run (NewRuntime addr_10)
     [OpSetInfo SourceDHCP (Some [''host.example'']), OpSetInfo SourceARP (Some [''other'']),
      OpInfo, OpSetInfo SourceHostsFile (Some ['''']), OpSetWHOIS (Some ''orgname''),
      OpWHOIS, OpUnset SourceDHCP, OpIsEmpty, OpSetInfo SourcePersistent None] =
     Inr \<lparr>ip = addr_10, whois = Some ''orgname'', arp = Some [''other''], rdns = None,
          dhcp = None, hostsFile = Some []\<rparr> \<and>
   Addr \<lparr>ip = addr_10, whois = Some ''orgname'', arp = Some [''other''], rdns = None,
         dhcp = None, hostsFile = Some []\<rparr> = addr_10"
  using Addr_never_reassigned [of "NewRuntime addr_10 :: string Runtime"
      "[OpSetInfo SourceDHCP (Some [''host.example'']), OpSetInfo SourceARP (Some [''other'']),
        OpInfo, OpSetInfo SourceHostsFile (Some ['''']), OpSetWHOIS (Some ''orgname''),
        OpWHOIS, OpUnset SourceDHCP, OpIsEmpty, OpSetInfo SourcePersistent None]" addr_10]
  by (simp add: NewRuntime_def SetInfo_def SetInfo_hosts_def SetWHOIS_def Unset_def Info_def
      Info_switch_def WHOIS_def IsEmpty_def Addr_def Source_defs)

text \<open>
  C10. For every record, \<open>SetWHOIS\<close> does not check that its argument is non-nil:
  \<open>SetWHOIS\<close> with nil gives the same record as \<open>Unset\<close> of the WHOIS source; \<open>WHOIS\<close>
  then returns nil, and if the four list slots are absent too, \<open>IsEmpty\<close> holds.
\<close>

theorem SetWHOIS_nil:
  "SetWHOIS r None = Unset r SourceWHOIS \<and>
   WHOIS (SetWHOIS r None) = None \<and>
   (arp r = None \<and> rdns r = None \<and> dhcp r = None \<and> hostsFile r = None \<longrightarrow>
      IsEmpty (SetWHOIS r None))"
  by (simp add: SetWHOIS_def Unset_def WHOIS_def IsEmpty_def)

theorem SetWHOIS_nil_witness:
  "arp rc_whois = None \<and> rdns rc_whois = None \<and> dhcp rc_whois = None \<and>
   hostsFile rc_whois = None \<and> WHOIS rc_whois = Some ''orgname'' \<and>
   \<not> IsEmpty rc_whois \<and>
   SetWHOIS rc_whois None = Unset rc_whois SourceWHOIS \<and>
   WHOIS (SetWHOIS rc_whois None) = None \<and>
   IsEmpty (SetWHOIS rc_whois None)"
  using SetWHOIS_nil [of rc_whois]
  by (simp add: rc_whois_def WHOIS_def IsEmpty_def SetWHOIS_def Unset_def)

subsection \<open>Display names\<close>

text \<open>
  C8. For every source value, \<open>Source_String\<close> gives the fixed display name of each of
  the five discovery sources (WHOIS, ARP, rDNS, DHCP, etc/hosts) and the empty string
  for every other value, the persistent source and the values outside the
  enumeration included; \<open>MarshalText\<close> gives exactly the bytes of that name and no
  error.
\<close>

theorem Source_String_names:
  "Source_String SourceWHOIS = ''WHOIS'' \<and>
   Source_String SourceARP = ''ARP'' \<and>
   Source_String SourceRDNS = ''rDNS'' \<and>
   Source_String SourceDHCP = ''DHCP'' \<and>
   Source_String SourceHostsFile = ''etc/hosts'' \<and>
   (cs \<notin> {SourceWHOIS, SourceARP, SourceRDNS, SourceDHCP, SourceHostsFile}
      \<longrightarrow> Source_String cs = '''') \<and>
   MarshalText cs = (map of_char (Source_String cs), None)"
  by (simp add: Source_String_def MarshalText_def bytes_of_string_def Source_defs)

theorem Source_String_names_witness:
  "SourcePersistent \<notin> {SourceWHOIS, SourceARP, SourceRDNS, SourceDHCP, SourceHostsFile} \<and>
   Source_String SourcePersistent = '''' \<and>
   MarshalText SourcePersistent = ([], None) \<and>
   (0 :: Source) \<notin> {SourceWHOIS, SourceARP, SourceRDNS, SourceDHCP, SourceHostsFile} \<and>
   Source_String 0 = '''' \<and>
   (255 :: Source) \<notin> {SourceWHOIS, SourceARP, SourceRDNS, SourceDHCP, SourceHostsFile} \<and>
   Source_String 255 = '''' \<and>
   MarshalText SourceDHCP = ([68, 72, 67, 80], None)"
  using Source_String_names [of SourcePersistent] Source_String_names [of 0]
    Source_String_names [of 255] Source_String_names [of SourceDHCP]
  by (simp add: Source_defs)

end
